theory Spec2Isabelle
  imports Main
begin

section \<open>Strings, as Go has them\<close>

text \<open>
  A Go string is a sequence of bytes; \<open>string\<close> (a list of 8-bit characters) is the same
  thing.  The library calls of \<open>main.go\<close> that work on strings are modelled on bytes.
\<close>

definition newline :: char where
  "newline = CHR 0x0A"

definition dquote :: char where
  "dquote = CHR 0x22"

definition isDigit :: "char \<Rightarrow> bool" where
  \<comment> \<open>the class \<open>\d\<close> of Go's regexp: the ASCII digits only\<close>
  "isDigit c = (48 \<le> (of_char c :: nat) \<and> (of_char c :: nat) \<le> 57)"

definition validRegex :: "string \<Rightarrow> bool" where
  \<comment> \<open>\<open>regexp.MustCompile(`^\d{4}$`).MatchString\<close>; in Go \<open>$\<close> is the end of the text\<close>
  "validRegex s = (length s = 4 \<and> list_all isDigit s)"

definition unicodeSpaces :: "string list" where
  \<comment> \<open>the UTF-8 encodings of the code points for which \<open>unicode.IsSpace\<close> holds\<close>
  "unicodeSpaces =
    [[CHR 0x09], [CHR 0x0A], [CHR 0x0B], [CHR 0x0C], [CHR 0x0D], [CHR 0x20],
     [CHR 0xC2, CHR 0x85], [CHR 0xC2, CHR 0xA0],
     [CHR 0xE1, CHR 0x9A, CHR 0x80],
     [CHR 0xE2, CHR 0x80, CHR 0x80], [CHR 0xE2, CHR 0x80, CHR 0x81],
     [CHR 0xE2, CHR 0x80, CHR 0x82], [CHR 0xE2, CHR 0x80, CHR 0x83],
     [CHR 0xE2, CHR 0x80, CHR 0x84], [CHR 0xE2, CHR 0x80, CHR 0x85],
     [CHR 0xE2, CHR 0x80, CHR 0x86], [CHR 0xE2, CHR 0x80, CHR 0x87],
     [CHR 0xE2, CHR 0x80, CHR 0x88], [CHR 0xE2, CHR 0x80, CHR 0x89],
     [CHR 0xE2, CHR 0x80, CHR 0x8A],
     [CHR 0xE2, CHR 0x80, CHR 0xA8], [CHR 0xE2, CHR 0x80, CHR 0xA9],
     [CHR 0xE2, CHR 0x80, CHR 0xAF], [CHR 0xE2, CHR 0x81, CHR 0x9F],
     [CHR 0xE3, CHR 0x80, CHR 0x80]]"

definition leading :: "string list \<Rightarrow> string \<Rightarrow> nat" where
  \<comment> \<open>how many bytes the first of the given sequences that starts \<open>s\<close> takes, 0 if none does\<close>
  "leading seqs s = (case find (\<lambda>p. p \<noteq> [] \<and> take (length p) s = p) seqs of
                       None \<Rightarrow> 0 | Some p \<Rightarrow> length p)"

function strip :: "string list \<Rightarrow> string \<Rightarrow> string" where
  "strip seqs s = (if leading seqs s = 0 then s else strip seqs (drop (leading seqs s) s))"
  by pat_completeness auto
termination
proof (relation "measure (\<lambda>(seqs, s). length s)")
  show "wf (measure (\<lambda>(seqs, s). length s))" by simp
next
  fix seqs :: "string list" and s :: string
  assume pos: "leading seqs s \<noteq> 0"
  have "leading seqs s \<le> length s"
  proof (cases "find (\<lambda>p. p \<noteq> [] \<and> take (length p) s = p) seqs")
    case None
    then show ?thesis by (simp add: leading_def)
  next
    case (Some p)
    then have "take (length p) s = p" by (auto simp: find_Some_iff)
    then have "length (take (length p) s) = length p" by simp
    then have "length p \<le> length s" by simp
    with Some show ?thesis by (simp add: leading_def)
  qed
  with pos show "((seqs, drop (leading seqs s) s), (seqs, s)) \<in> measure (\<lambda>(seqs, s). length s)"
    by simp
qed

declare strip.simps [simp del]

definition TrimSpace :: "string \<Rightarrow> string" where
  \<comment> \<open>\<open>strings.TrimSpace\<close>: white space is removed at the front, then at the back\<close>
  "TrimSpace s = rev (strip (map rev unicodeSpaces) (rev (strip unicodeSpaces s)))"

fun splitAcc :: "char \<Rightarrow> string \<Rightarrow> string \<Rightarrow> string list" where
  "splitAcc sep cur [] = [cur]"
| "splitAcc sep cur (c # cs) =
     (if c = sep then cur # splitAcc sep [] cs else splitAcc sep (cur @ [c]) cs)"

definition Split :: "string \<Rightarrow> char \<Rightarrow> string list" where
  \<comment> \<open>\<open>strings.Split(s, ",")\<close> for a one-byte separator: n separators give n + 1 pieces\<close>
  "Split s sep = splitAcc sep [] s"

definition digitChar :: "nat \<Rightarrow> char" where
  "digitChar d = char_of (48 + d)"

fun digits10 :: "nat \<Rightarrow> string" where
  "digits10 n = (if n < 10 then [digitChar n] else digits10 (n div 10) @ [digitChar (n mod 10)])"

declare digits10.simps [simp del]

definition Sprintf_04d :: "nat \<Rightarrow> string" where
  \<comment> \<open>\<open>fmt.Sprintf("%04d", n)\<close> for \<open>n \<ge> 0\<close>: the decimal digits, padded with zeros to width 4\<close>
  "Sprintf_04d n = replicate (4 - length (digits10 n)) (CHR ''0'') @ digits10 n"


section \<open>Errors, console messages, the environment\<close>

type_synonym cause = string \<comment> \<open>the text of the underlying error (\<open>%v\<close> of \<open>err\<close>)\<close>

text \<open>One constructor for each \<open>fmt.Errorf\<close> of \<open>main.go\<close>, carrying the wrapped cause.\<close>

datatype error =
    ConfigMarshalError cause \<comment> \<open>"failed to generate default config: %v"\<close>
  | ConfigCreateError cause \<comment> \<open>"failed to create %s: %v"\<close>
  | ConfigStatError cause \<comment> \<open>"failed to check %s status: %v"\<close>
  | ConfigOpenError cause \<comment> \<open>"failed to open %s: %v"\<close>
  | ConfigParseError cause \<comment> \<open>"failed to parse %s format (check commas and quotes): %v"\<close>
  | EmptyInputError \<comment> \<open>"input cannot be empty"\<close>
  | NoValidCodesError \<comment> \<open>"no valid middle codes detected (...)"\<close>
  | CreateError cause \<comment> \<open>"failed to create file: %v"\<close>
  | WriteError cause \<comment> \<open>"failed to write to file: %v"\<close>

text \<open>One constructor for each print statement, carrying the values it formats.\<close>

datatype msg =
    MsgLoaded nat nat nat
  | MsgGetFailed error
  | MsgGenerationFailed error
  | MsgExported
  | MsgExiting
  | MsgRestart
  | MsgSelectMethod
  | MsgOption1
  | MsgOption2
  | PromptOption
  | MsgConfigFailed error
  | MsgConfigEmpty
  | MsgConfigRead nat "string list"
  | MsgInputError error
  | MsgManualRead nat "string list"
  | MsgInvalidOption
  | PromptExit
  | MsgInvalidAnswer
  | MsgConfigNotFound
  | MsgConfigCreated "string list"
  | MsgConfigNote
  | MsgInvalidCode string
  | PromptCodes
  | MsgStarting
  | MsgTotals nat nat
  | MsgEstimated int
  | MsgProgress int int
  | MsgCompleted int

record Config =
  MiddleCodes :: "string list"

record segments =
  crawledMobile :: "string list"
  crawledUnicom :: "string list"
  crawledTelecom :: "string list"

text \<open>
  The environment of a run: what the program cannot decide.  \<open>int_bits\<close> is the width of
  Go's \<open>int\<close> on the target (the build script compiles for 32-bit and 64-bit targets); the
  faults say which system calls fail and with which cause; \<open>encoding/json\<close> is a parameter.
  The faults on the output are indexed by the number of bytes the writer has accepted so far.
\<close>

record env =
  int_bits :: nat
  json_MarshalIndent :: "Config \<Rightarrow> cause + string"
  json_Decode :: "string \<Rightarrow> cause + Config"
  stat_fault :: "cause option"
  open_fault :: "cause option"
  writefile_fault :: "(cause \<times> string option) option"
    \<comment> \<open>the cause, and what \<open>os.WriteFile\<close> leaves of the file when it fails\<close>
  create_fault :: "cause option"
  write_fault :: "nat \<Rightarrow> cause option"
  flush_fault :: "nat \<Rightarrow> cause option"

text \<open>
  The state a run changes: the lines the scanner will still deliver from standard input
  (none left: end of input), what was printed, the two files, and whether the handle of
  the output file is open.
\<close>

record world =
  stdin :: "string list"
  console :: "msg list"
  config_json :: "string option"
  phonedict_txt :: "string option"
  handle_open :: bool

definition Print :: "msg \<Rightarrow> world \<Rightarrow> world" where
  "Print m w = w\<lparr>console := console w @ [m]\<rparr>"

definition Scan_Text :: "world \<Rightarrow> string \<times> world" where
  \<comment> \<open>\<open>scanner.Scan()\<close> (its result is not looked at), then \<open>scanner.Text()\<close>:
      the next line, or the empty string once the input has ended\<close>
  "Scan_Text w = (case stdin w of [] \<Rightarrow> ([], w) | l # ls \<Rightarrow> (l, w\<lparr>stdin := ls\<rparr>))"

section \<open>The middle-code source\<close>

datatype stat = StatOK | StatNotExist | StatError cause

definition Stat :: "env \<Rightarrow> world \<Rightarrow> stat" where
  "Stat E w = (case stat_fault E of Some c \<Rightarrow> StatError c
               | None \<Rightarrow> (case config_json w of None \<Rightarrow> StatNotExist | Some _ \<Rightarrow> StatOK))"

definition WriteFile :: "env \<Rightarrow> string \<Rightarrow> world \<Rightarrow> cause option \<times> world" where
  "WriteFile E d w = (case writefile_fault E of
                        Some (c, left) \<Rightarrow> (Some c, w\<lparr>config_json := left\<rparr>)
                      | None \<Rightarrow> (None, w\<lparr>config_json := Some d\<rparr>))"

definition Open :: "env \<Rightarrow> world \<Rightarrow> cause + string" where
  "Open E w = (case open_fault E of Some c \<Rightarrow> Inl c
               | None \<Rightarrow> (case config_json w of None \<Rightarrow> Inl ''no such file or directory''
                          | Some d \<Rightarrow> Inr d))"

definition defaultConfig :: Config where
  "defaultConfig = \<lparr>MiddleCodes = [''0537'', ''0100'', ''0210'', ''0755'']\<rparr>"

fun validateCodes :: "string list \<Rightarrow> string list \<Rightarrow> world \<Rightarrow> string list \<times> world" where
  \<comment> \<open>the loop of \<open>loadConfig\<close> over \<open>config.MiddleCodes\<close>\<close>
  "validateCodes [] validCodes w = (validCodes, w)"
| "validateCodes (code # rest) validCodes w =
     (if validRegex code then validateCodes rest (validCodes @ [code]) w
      else validateCodes rest validCodes (Print (MsgInvalidCode code) w))"

definition loadConfig :: "env \<Rightarrow> world \<Rightarrow> (error + Config) \<times> world" where
  "loadConfig E w =
    (case Stat E w of
       StatNotExist \<Rightarrow>
         (let w1 = Print MsgConfigNotFound w in
          case json_MarshalIndent E defaultConfig of
            Inl c \<Rightarrow> (Inl (ConfigMarshalError c), w1)
          | Inr jsonData \<Rightarrow>
              (case WriteFile E jsonData w1 of
                 (Some c, w2) \<Rightarrow> (Inl (ConfigCreateError c), w2)
               | (None, w2) \<Rightarrow>
                   (Inr defaultConfig,
                    Print MsgConfigNote (Print (MsgConfigCreated (MiddleCodes defaultConfig)) w2))))
     | StatError c \<Rightarrow> (Inl (ConfigStatError c), w)
     | StatOK \<Rightarrow>
         (case Open E w of
            Inl c \<Rightarrow> (Inl (ConfigOpenError c), w)
          | Inr file \<Rightarrow>
              (case json_Decode E file of
                 Inl c \<Rightarrow> (Inl (ConfigParseError c), w)
               | Inr config \<Rightarrow>
                   (case validateCodes (MiddleCodes config) [] w of
                      (validCodes, w1) \<Rightarrow> (Inr (config\<lparr>MiddleCodes := validCodes\<rparr>), w1)))))"

fun collectCodes :: "string list \<Rightarrow> string list \<Rightarrow> (string \<Rightarrow> bool) \<Rightarrow> string list" where
  \<comment> \<open>the loop of \<open>inputMiddleCodes\<close> over \<open>rawCodes\<close>; \<open>seen\<close> is the \<open>map[string]bool\<close>\<close>
  "collectCodes [] validCodes seen = validCodes"
| "collectCodes (raw # rest) validCodes seen =
     (let code = TrimSpace raw in
      if validRegex code \<and> \<not> seen code
      then collectCodes rest (validCodes @ [code]) (seen(code := True))
      else collectCodes rest validCodes seen)"

definition inputMiddleCodes :: "world \<Rightarrow> (error + string list) \<times> world" where
  "inputMiddleCodes w =
    (case Scan_Text (Print PromptCodes w) of
       (text, w1) \<Rightarrow>
         (let input = TrimSpace text in
          if input = [] then (Inl EmptyInputError, w1)
          else
            (let rawCodes = Split input (CHR '','');
                 validCodes = collectCodes rawCodes [] (\<lambda>_. False)
             in if length validCodes = 0 then (Inl NoValidCodesError, w1)
                else (Inr validCodes, w1))))"

partial_function (option) selectLoop :: "env \<Rightarrow> world \<Rightarrow> ((error + string list) \<times> world) option"
  where
  "selectLoop E w =
    (case Scan_Text (Print PromptOption w) of
       (text, w1) \<Rightarrow>
         (let choice = TrimSpace text in
          if choice = ''1'' then
            (case loadConfig E w1 of
               (Inl err, w2) \<Rightarrow> selectLoop E (Print (MsgConfigFailed err) w2)
             | (Inr config, w2) \<Rightarrow>
                 (case (if length (MiddleCodes config) = 0
                        then ([''0537''], Print MsgConfigEmpty w2)
                        else (MiddleCodes config, w2)) of
                    (middleCodes, w3) \<Rightarrow>
                      Some (Inr middleCodes,
                            Print (MsgConfigRead (length middleCodes) middleCodes) w3)))
          else if choice = ''2'' then
            (case inputMiddleCodes w1 of
               (Inl err, w2) \<Rightarrow> selectLoop E (Print (MsgInputError err) w2)
             | (Inr middleCodes, w2) \<Rightarrow>
                 Some (Inr middleCodes,
                       Print (MsgManualRead (length middleCodes) middleCodes) w2))
          else selectLoop E (Print MsgInvalidOption w1)))"

definition selectMiddleCodes :: "env \<Rightarrow> world \<Rightarrow> ((error + string list) \<times> world) option" where
  \<comment> \<open>\<open>None\<close>: the call does not return (the loop goes on for ever)\<close>
  "selectMiddleCodes E w =
     selectLoop E (Print MsgOption2 (Print MsgOption1 (Print MsgSelectMethod w)))"

partial_function (option) askToContinue :: "world \<Rightarrow> (bool \<times> world) option" where
  "askToContinue w =
    (case Scan_Text (Print PromptExit w) of
       (text, w1) \<Rightarrow>
         (let quitChoice = TrimSpace text in
          if quitChoice = ''y'' \<or> quitChoice = ''Y'' then Some (False, w1)
          else if quitChoice = ''n'' \<or> quitChoice = ''N'' then Some (True, w1)
          else askToContinue (Print MsgInvalidAnswer w1)))"


section \<open>The generator\<close>

definition initDefaultSegments :: segments where
  "initDefaultSegments =
    \<lparr>crawledMobile = [''134'', ''135'', ''136'', ''137'', ''138'', ''139'', ''147'', ''150'',
                       ''151'', ''152'', ''157'', ''158'', ''159'', ''178'', ''182'', ''183'',
                       ''184'', ''187'', ''188'', ''198''],
     crawledUnicom = [''130'', ''131'', ''132'', ''145'', ''155'', ''156'', ''166'', ''175'',
                       ''176'', ''185'', ''186''],
     crawledTelecom = [''133'', ''149'', ''153'', ''173'', ''177'', ''180'', ''181'', ''189'',
                        ''199'']\<rparr>"

definition go_int :: "nat \<Rightarrow> int \<Rightarrow> int" where
  \<comment> \<open>a result of \<open>int\<close> arithmetic, wrapped to the two's complement range of the width\<close>
  "go_int bits k = signed_take_bit (bits - 1) k"

definition go_rem :: "int \<Rightarrow> int \<Rightarrow> int" where
  \<comment> \<open>Go's \<open>%\<close>: the remainder of the division that truncates toward zero\<close>
  "go_rem a b = sgn a * (\<bar>a\<bar> mod \<bar>b\<bar>)"

text \<open>
  The \<open>bufio.Writer\<close> over the output file: the data it has accepted and not yet passed to
  the file, and its error, which is sticky (once a write has failed, every later write and
  flush returns that error and does nothing).  The model keeps accepted data in \<open>buf\<close>
  until \<open>Flush\<close>; after a flush that succeeds, the file holds all accepted data.
\<close>

record bufio =
  buf :: string
  werr :: "cause option"

definition file_content :: "world \<Rightarrow> string" where
  "file_content w = (case phonedict_txt w of None \<Rightarrow> [] | Some d \<Rightarrow> d)"

definition accepted :: "bufio \<Rightarrow> world \<Rightarrow> nat" where
  "accepted b w = length (file_content w) + length (buf b)"

definition Create :: "env \<Rightarrow> world \<Rightarrow> cause option \<times> world" where
  \<comment> \<open>\<open>os.Create\<close>: the file is created or truncated, and open\<close>
  "Create E w = (case create_fault E of Some c \<Rightarrow> (Some c, w)
                 | None \<Rightarrow> (None, w\<lparr>phonedict_txt := Some [], handle_open := True\<rparr>))"

definition Close :: "world \<Rightarrow> world" where
  "Close w = w\<lparr>handle_open := False\<rparr>"

definition WriteString :: "env \<Rightarrow> string \<Rightarrow> bufio \<Rightarrow> world \<Rightarrow> cause option \<times> bufio" where
  "WriteString E s b w =
    (case werr b of
       Some c \<Rightarrow> (Some c, b)
     | None \<Rightarrow>
         (case write_fault E (accepted b w) of
            Some c \<Rightarrow> (Some c, b\<lparr>werr := Some c\<rparr>)
          | None \<Rightarrow> (None, b\<lparr>buf := buf b @ s\<rparr>)))"

definition Flush :: "env \<Rightarrow> bufio \<Rightarrow> world \<Rightarrow> cause option \<times> bufio \<times> world" where
  "Flush E b w =
    (case werr b of
       Some c \<Rightarrow> (Some c, b, w)
     | None \<Rightarrow>
         if buf b = [] then (None, b, w)
         else
           (case flush_fault E (accepted b w) of
              Some c \<Rightarrow> (Some c, b\<lparr>werr := Some c\<rparr>, w)
            | None \<Rightarrow>
                (None, b\<lparr>buf := []\<rparr>, w\<lparr>phonedict_txt := Some (file_content w @ buf b)\<rparr>)))"

text \<open>The local state of \<open>generatePhoneNumbers\<close> while its loops run.\<close>

record gen =
  generatedCount :: int
  writer :: bufio
  wld :: world

definition writePhone :: "env \<Rightarrow> int \<Rightarrow> string \<Rightarrow> gen \<Rightarrow> error option \<times> gen" where
  \<comment> \<open>the body of the innermost loop, from \<open>phone\<close> on\<close>
  "writePhone E totalNumbers phone g =
    (case WriteString E (phone @ [newline]) (writer g) (wld g) of
       (Some c, b) \<Rightarrow> (Some (WriteError c), g\<lparr>writer := b\<rparr>)
     | (None, b) \<Rightarrow>
         (let n = go_int (int_bits E) (generatedCount g + 1);
              g1 = g\<lparr>generatedCount := n, writer := b\<rparr>
          in if go_rem n 10000 = 0 then
               (case Flush E (writer g1) (wld g1) of
                  (_, b', w') \<Rightarrow>
                    (None, g1\<lparr>writer := b', wld := Print (MsgProgress n totalNumbers) w'\<rparr>))
             else (None, g1)))"

function suffixLoop :: "env \<Rightarrow> int \<Rightarrow> string \<Rightarrow> string \<Rightarrow> nat \<Rightarrow> gen \<Rightarrow> error option \<times> gen"
  where
  "suffixLoop E totalNumbers seg middle suffix g =
    (if suffix < 10000 then
       (let suffixStr = Sprintf_04d suffix;
            phone = seg @ middle @ suffixStr
        in case writePhone E totalNumbers phone g of
             (Some err, g') \<Rightarrow> (Some err, g')
           | (None, g') \<Rightarrow> suffixLoop E totalNumbers seg middle (suffix + 1) g')
     else (None, g))"
  by pat_completeness auto
termination
  by (relation "measure (\<lambda>(E, t, seg, middle, suffix, g). 10000 - suffix)") auto

declare suffixLoop.simps [simp del]

fun middleLoop :: "env \<Rightarrow> int \<Rightarrow> string \<Rightarrow> string list \<Rightarrow> gen \<Rightarrow> error option \<times> gen" where
  "middleLoop E totalNumbers seg [] g = (None, g)"
| "middleLoop E totalNumbers seg (middle # rest) g =
     (case suffixLoop E totalNumbers seg middle 0 g of
        (Some err, g') \<Rightarrow> (Some err, g')
      | (None, g') \<Rightarrow> middleLoop E totalNumbers seg rest g')"

fun segLoop :: "env \<Rightarrow> int \<Rightarrow> string list \<Rightarrow> string list \<Rightarrow> gen \<Rightarrow> error option \<times> gen" where
  "segLoop E totalNumbers [] middleCodes g = (None, g)"
| "segLoop E totalNumbers (seg # rest) middleCodes g =
     (case middleLoop E totalNumbers seg middleCodes g of
        (Some err, g') \<Rightarrow> (Some err, g')
      | (None, g') \<Rightarrow> segLoop E totalNumbers rest middleCodes g')"

definition deferred :: "env \<Rightarrow> gen \<Rightarrow> world" where
  \<comment> \<open>the deferred calls, last first: \<open>writer.Flush()\<close>, then \<open>file.Close()\<close>\<close>
  "deferred E g = (case Flush E (writer g) (wld g) of (_, b, w) \<Rightarrow> Close w)"

definition allSegments :: "segments \<Rightarrow> string list" where
  \<comment> \<open>\<open>append(append(crawledMobile, crawledUnicom...), crawledTelecom...)\<close>\<close>
  "allSegments G = crawledMobile G @ crawledUnicom G @ crawledTelecom G"

definition generatePhoneNumbers ::
  "env \<Rightarrow> segments \<Rightarrow> string list \<Rightarrow> world \<Rightarrow> error option \<times> world" where
  "generatePhoneNumbers E G middleCodes w =
    (case Create E w of
       (Some c, w0) \<Rightarrow> (Some (CreateError c), w0)
     | (None, w0) \<Rightarrow>
         (let totalSegments = length (allSegments G);
              totalMiddle = length middleCodes;
              totalNumbers = go_int (int_bits E) (int totalSegments * int totalMiddle * 10000);
              w1 = Print (MsgEstimated totalNumbers)
                     (Print (MsgTotals totalSegments totalMiddle) (Print MsgStarting w0));
              g0 = \<lparr>generatedCount = 0, writer = \<lparr>buf = [], werr = None\<rparr>, wld = w1\<rparr>
          in case segLoop E totalNumbers (allSegments G) middleCodes g0 of
               (Some err, g) \<Rightarrow> (Some err, deferred E g)
             | (None, g) \<Rightarrow>
                 (None, deferred E (g\<lparr>wld := Print (MsgCompleted (generatedCount g)) (wld g)\<rparr>))))"

section \<open>The driver\<close>

partial_function (option) mainLoop :: "env \<Rightarrow> segments \<Rightarrow> world \<Rightarrow> world option" where
  "mainLoop E G w =
    (case selectMiddleCodes E w of
       None \<Rightarrow> None
     | Some (Inl err, w1) \<Rightarrow> mainLoop E G (Print (MsgGetFailed err) w1)
     | Some (Inr middleCodes, w1) \<Rightarrow>
         (case generatePhoneNumbers E G middleCodes w1 of
            (r, w2) \<Rightarrow>
              (case askToContinue
                      (Print (case r of Some err \<Rightarrow> MsgGenerationFailed err | None \<Rightarrow> MsgExported)
                         w2) of
                 None \<Rightarrow> None
               | Some (again, w3) \<Rightarrow>
                   if \<not> again then Some (Print MsgExiting w3)
                   else mainLoop E G (Print MsgRestart w3))))"

definition main :: "env \<Rightarrow> world \<Rightarrow> world option" where
  "main E w =
    (let G = initDefaultSegments
     in mainLoop E G
          (Print (MsgLoaded (length (crawledMobile G)) (length (crawledUnicom G))
                    (length (crawledTelecom G))) w))"

section \<open>What the output file holds, read as lines\<close>

fun linesAcc :: "string \<Rightarrow> string \<Rightarrow> string list" where
  "linesAcc cur [] = (if cur = [] then [] else [cur])"
| "linesAcc cur (c # cs) =
     (if c = newline then cur # linesAcc [] cs else linesAcc (cur @ [c]) cs)"

definition lines_of :: "string \<Rightarrow> string list" where
  \<comment> \<open>the lines of a text, each ended by a newline (a last line may lack it)\<close>
  "lines_of s = linesAcc [] s"


section \<open>Notions the properties are stated with\<close>

function firstSeen :: "'a list \<Rightarrow> 'a list" where
  \<comment> \<open>duplicates removed, the first occurrence of each element kept in place\<close>
  "firstSeen [] = []"
| "firstSeen (x # xs) = x # firstSeen (removeAll x xs)"
  by pat_completeness auto
termination
  by (relation "measure length") (auto simp: less_Suc_eq_le length_removeAll_less_eq)

definition nestedOrder :: "string list \<Rightarrow> string list \<Rightarrow> string list" where
  \<comment> \<open>the numbers in the order prefix, then middle code, then suffix 0 to 9999\<close>
  "nestedOrder prefixes middleCodes =
     concat (map (\<lambda>p. concat (map (\<lambda>m. map (\<lambda>s. p @ m @ Sprintf_04d s) [0..<10000])
                                   middleCodes))
                 prefixes)"

definition asLines :: "string list \<Rightarrow> string" where
  "asLines ps = concat (map (\<lambda>p. p @ [newline]) ps)"

definition natOfDigits :: "string \<Rightarrow> nat" where
  \<comment> \<open>the number a string of decimal digits denotes\<close>
  "natOfDigits s = foldl (\<lambda>a c. 10 * a + (of_char c - 48)) 0 s"

definition content :: "gen \<Rightarrow> string" where
  \<comment> \<open>all the data the writer has accepted: what is in the file, then what is buffered\<close>
  "content g = file_content (wld g) @ buf (writer g)"

fun writeAll :: "env \<Rightarrow> int \<Rightarrow> string list \<Rightarrow> gen \<Rightarrow> error option \<times> gen" where
  \<comment> \<open>the loop body run over a list of numbers; the three loops are this, on \<open>nestedOrder\<close>\<close>
  "writeAll E t [] g = (None, g)"
| "writeAll E t (phone # rest) g =
     (case writePhone E t phone g of
        (Some err, g') \<Rightarrow> (Some err, g')
      | (None, g') \<Rightarrow> writeAll E t rest g')"

subsection \<open>A JSON codec for the one shape of file the program writes\<close>

text \<open>
  \<open>encoding/json\<close> is a parameter of the model.  To run the model, the parameter is
  instantiated with a codec for objects of the shape \<open>{"middleCodes": ["...", ...]}\<close>
  whose strings need no escaping; \<open>fragment_MarshalIndent\<close> produces the text that
  \<open>json.MarshalIndent(v, "", "  ")\<close> produces for them, and everything else is refused.
\<close>

definition plainChar :: "char \<Rightarrow> bool" where
  \<comment> \<open>printable ASCII that \<open>encoding/json\<close> writes as it is\<close>
  "plainChar c = (32 \<le> (of_char c :: nat) \<and> (of_char c :: nat) < 127 \<and>
                  c \<noteq> dquote \<and> c \<noteq> CHR 0x5C \<and> c \<noteq> CHR ''<'' \<and> c \<noteq> CHR ''>'' \<and> c \<noteq> CHR ''&'')"

definition quoted :: "string \<Rightarrow> string" where
  "quoted s = dquote # s @ [dquote]"

fun joinLines :: "string list \<Rightarrow> string" where
  "joinLines [] = []"
| "joinLines [x] = x"
| "joinLines (x # y # ys) = x @ '','' @ [newline] @ joinLines (y # ys)"

definition fragment_MarshalIndent :: "Config \<Rightarrow> cause + string" where
  "fragment_MarshalIndent c =
    (if \<not> list_all (list_all plainChar) (MiddleCodes c) then Inl ''outside the fragment''
     else Inr (''{'' @ [newline] @ ''  '' @ quoted ''middleCodes'' @ '': '' @
               (if MiddleCodes c = [] then ''[]''
                else ''['' @ [newline] @
                     joinLines (map (\<lambda>code. ''    '' @ quoted code) (MiddleCodes c)) @
                     [newline] @ ''  ]'') @
               [newline] @ ''}''))"

datatype token = LBrace | RBrace | LBrack | RBrack | Colon | Comma | Str string | Bad

fun lex :: "string option \<Rightarrow> string \<Rightarrow> token list" where
  \<comment> \<open>the first argument is the string literal being read, if one is open\<close>
  "lex None [] = []"
| "lex (Some acc) [] = [Bad]"
| "lex None (c # cs) =
     (if c = dquote then lex (Some []) cs
      else if c = CHR '' '' \<or> c = CHR 0x09 \<or> c = CHR 0x0A \<or> c = CHR 0x0D then lex None cs
      else if c = CHR ''{'' then LBrace # lex None cs
      else if c = CHR ''}'' then RBrace # lex None cs
      else if c = CHR ''['' then LBrack # lex None cs
      else if c = CHR '']'' then RBrack # lex None cs
      else if c = CHR '':'' then Colon # lex None cs
      else if c = CHR '','' then Comma # lex None cs
      else [Bad])"
| "lex (Some acc) (c # cs) =
     (if c = dquote then Str acc # lex None cs
      else if plainChar c then lex (Some (acc @ [c])) cs
      else [Bad])"

fun parseItems :: "token list \<Rightarrow> string list option" where
  \<comment> \<open>the strings of an array after its opening bracket, up to the end of the object\<close>
  "parseItems [] = None"
| "parseItems (t # ts) =
     (case t of
        Str s \<Rightarrow>
          (if ts = [RBrack, RBrace] then Some [s]
           else (case ts of
                   Comma # rest \<Rightarrow> map_option ((#) s) (parseItems rest)
                 | _ \<Rightarrow> None))
      | _ \<Rightarrow> None)"

definition fragment_Decode :: "string \<Rightarrow> cause + Config" where
  "fragment_Decode d =
    (case lex None d of
       LBrace # Str k # Colon # LBrack # rest \<Rightarrow>
         (if k \<noteq> ''middleCodes'' then Inl ''outside the fragment''
          else if rest = [RBrack, RBrace] then Inr \<lparr>MiddleCodes = []\<rparr>
          else (case parseItems rest of
                  None \<Rightarrow> Inl ''invalid character''
                | Some codes \<Rightarrow> Inr \<lparr>MiddleCodes = codes\<rparr>))
     | _ \<Rightarrow> Inl ''invalid character'')"

subsection \<open>A concrete environment and a concrete initial state\<close>

definition env0 :: env where
  \<comment> \<open>a 64-bit target on which no system call fails\<close>
  "env0 = \<lparr>int_bits = 64, json_MarshalIndent = fragment_MarshalIndent,
           json_Decode = fragment_Decode, stat_fault = None, open_fault = None,
           writefile_fault = None, create_fault = None,
           write_fault = (\<lambda>_. None), flush_fault = (\<lambda>_. None)\<rparr>"

definition world0 :: world where
  \<comment> \<open>nothing typed, nothing printed, neither file there\<close>
  "world0 = \<lparr>stdin = [], console = [], config_json = None, phonedict_txt = None,
             handle_open = False\<rparr>"


section \<open>Manual entry of middle codes\<close>

lemma set_firstSeen: "set (firstSeen xs) = set xs"
  by (induction xs rule: firstSeen.induct) auto

lemma distinct_firstSeen: "distinct (firstSeen xs)"
  by (induction xs rule: firstSeen.induct) (auto simp: set_firstSeen)

lemma collectCodes_firstSeen:
  "seen = (\<lambda>c. c \<in> set acc) \<Longrightarrow>
   collectCodes raws acc seen =
     acc @ firstSeen (filter (\<lambda>c. c \<notin> set acc) (filter validRegex (map TrimSpace raws)))"
proof (induction raws arbitrary: acc seen)
  case Nil
  then show ?case by simp
next
  case (Cons raw rest)
  let ?code = "TrimSpace raw"
  show ?case
  proof (cases "validRegex ?code \<and> ?code \<notin> set acc")
    case True
    have seen': "seen(?code := True) = (\<lambda>c. c \<in> set (acc @ [?code]))"
      using Cons.prems by (auto simp: fun_eq_iff)
    have rm: "removeAll ?code (filter (\<lambda>c. c \<notin> set acc) (filter validRegex (map TrimSpace rest)))
          = filter (\<lambda>c. c \<notin> set (acc @ [?code])) (filter validRegex (map TrimSpace rest))"
      by (induction rest) auto
    have "collectCodes (raw # rest) acc seen = collectCodes rest (acc @ [?code]) (seen(?code := True))"
      using True Cons.prems by (simp add: Let_def)
    also have "\<dots> = (acc @ [?code]) @
        firstSeen (filter (\<lambda>c. c \<notin> set (acc @ [?code])) (filter validRegex (map TrimSpace rest)))"
      by (rule Cons.IH [OF seen'])
    also have "\<dots> = acc @ firstSeen (filter (\<lambda>c. c \<notin> set acc)
                                (filter validRegex (map TrimSpace (raw # rest))))"
      using True by (simp add: rm del: filter_filter)
    finally show ?thesis .
  next
    case False
    with Cons.prems Cons.IH [of seen acc] show ?thesis
      by (auto simp: Let_def)
  qed
qed

lemma collectCodes_start:
  "collectCodes raws [] (\<lambda>_. False) = firstSeen (filter validRegex (map TrimSpace raws))"
  using collectCodes_firstSeen [of "\<lambda>_. False" "[]" raws] by simp

lemma firstSeen_Nil_iff: "firstSeen xs = [] \<longleftrightarrow> xs = []"
  by (cases xs) auto

lemma inputMiddleCodes_eq:
  "inputMiddleCodes w =
    (let w1 = snd (Scan_Text (Print PromptCodes w));
         input = TrimSpace (fst (Scan_Text (Print PromptCodes w)));
         toks = filter validRegex (map TrimSpace (Split input (CHR '','')))
     in if input = [] then (Inl EmptyInputError, w1)
        else if toks = [] then (Inl NoValidCodesError, w1)
        else (Inr (firstSeen toks), w1))"
  by (simp add: inputMiddleCodes_def Let_def collectCodes_start firstSeen_Nil_iff split: prod.split)

lemma Scan_Text_Cons: "stdin w = l # ls \<Longrightarrow> Scan_Text (Print m w) = (l, (Print m w)\<lparr>stdin := ls\<rparr>)"
  by (simp add: Scan_Text_def Print_def)


lemma validateCodes_eq:
  "validateCodes codes acc w =
     (acc @ filter validRegex codes,
      w\<lparr>console := console w @ map MsgInvalidCode (filter (\<lambda>c. \<not> validRegex c) codes)\<rparr>)"
  by (induction codes arbitrary: acc w) (simp_all add: Print_def)

lemma loadConfig_present:
  assumes "config_json w = Some d" "stat_fault E = None" "open_fault E = None"
  shows "loadConfig E w =
    (case json_Decode E d of
       Inl c \<Rightarrow> (Inl (ConfigParseError c), w)
     | Inr config \<Rightarrow>
         (Inr (config\<lparr>MiddleCodes := filter validRegex (MiddleCodes config)\<rparr>),
          w\<lparr>console := console w @
                 map MsgInvalidCode (filter (\<lambda>c. \<not> validRegex c) (MiddleCodes config))\<rparr>))"
  using assms by (simp add: loadConfig_def Stat_def Open_def validateCodes_eq split: sum.split)

lemma Scan_Prompt:
  "stdin w = l # ls \<Longrightarrow>
   Scan_Text (Print m w) = (l, w\<lparr>stdin := ls, console := console w @ [m]\<rparr>)"
  by (cases w) (simp add: Scan_Text_def Print_def)

lemma selectLoop_1:
  assumes "stdin w = choice # rest" "TrimSpace choice = ''1''"
  shows "selectLoop E w =
    (case loadConfig E (w\<lparr>stdin := rest, console := console w @ [PromptOption]\<rparr>) of
       (Inl err, w2) \<Rightarrow> selectLoop E (Print (MsgConfigFailed err) w2)
     | (Inr config, w2) \<Rightarrow>
         (if MiddleCodes config = []
          then Some (Inr [''0537''], Print (MsgConfigRead 1 [''0537'']) (Print MsgConfigEmpty w2))
          else Some (Inr (MiddleCodes config),
                     Print (MsgConfigRead (length (MiddleCodes config)) (MiddleCodes config)) w2)))"
proof -
  obtain r w2 where lc: "loadConfig E (w\<lparr>stdin := rest, console := console w @ [PromptOption]\<rparr>) = (r, w2)"
    by (cases "loadConfig E (w\<lparr>stdin := rest, console := console w @ [PromptOption]\<rparr>)")
  show ?thesis
    by (subst selectLoop.simps, cases r)
       (simp_all add: Scan_Prompt [OF assms(1)] assms(2) lc)
qed


lemma selectLoop_other:
  assumes "stdin w = choice # rest" "TrimSpace choice \<noteq> ''1''" "TrimSpace choice \<noteq> ''2''"
  shows "selectLoop E w =
     selectLoop E (w\<lparr>stdin := rest, console := console w @ [PromptOption, MsgInvalidOption]\<rparr>)"
proof -
  have "selectLoop E w =
     selectLoop E (Print MsgInvalidOption (w\<lparr>stdin := rest, console := console w @ [PromptOption]\<rparr>))"
    by (subst selectLoop.simps) (simp add: Scan_Prompt [OF assms(1)] assms(2,3))
  then show ?thesis by (simp add: Print_def)
qed



lemma TrimSpace_Nil: "TrimSpace [] = []"
  by code_simp

lemma TrimSpace_1: "TrimSpace ''1'' = ''1''"
  by code_simp


text \<open>
  C6.  Manual entry splits the line on commas, trims white space from each token, keeps
  exactly the tokens that match \<open>^\d{4}$\<close> and removes duplicates, the first occurrence of a
  code staying in its place; \<open>"0537"\<close> matches, while \<open>"537"\<close>, \<open>"05a7"\<close>, \<open>"05377"\<close> and
  \<open>""\<close> do not; the line \<open>"0537,0100,0537, 0210"\<close> gives \<open>["0537","0100","0210"]\<close>.
\<close>

theorem inputMiddleCodes_tokens:
  "(stdin w = line # rest \<and> TrimSpace line \<noteq> [] \<and>
    toks = filter validRegex (map TrimSpace (Split (TrimSpace line) (CHR '',''))) \<and> toks \<noteq> []
    \<longrightarrow> fst (inputMiddleCodes w) = Inr (firstSeen toks) \<and>
        distinct (firstSeen toks) \<and> set (firstSeen toks) = set toks)
   \<and> validRegex ''0537'' \<and> \<not> validRegex ''537'' \<and> \<not> validRegex ''05a7''
   \<and> \<not> validRegex ''05377'' \<and> \<not> validRegex ''''
   \<and> (stdin w = ''0537,0100,0537, 0210'' # rest
        \<longrightarrow> fst (inputMiddleCodes w) = Inr [''0537'', ''0100'', ''0210''])"
proof -
  have a: "TrimSpace ''0537,0100,0537, 0210'' = ''0537,0100,0537, 0210''" by code_simp
  have b: "firstSeen (filter validRegex (map TrimSpace (Split ''0537,0100,0537, 0210'' (CHR '',''))))
           = [''0537'', ''0100'', ''0210'']" by code_simp
  have c: "validRegex ''0537'' \<and> \<not> validRegex ''537'' \<and> \<not> validRegex ''05a7''
   \<and> \<not> validRegex ''05377'' \<and> \<not> validRegex ''''"
    by (simp add: validRegex_def isDigit_def)
  show ?thesis
    using a b c
    by (auto simp: inputMiddleCodes_eq Let_def Scan_Text_Cons distinct_firstSeen set_firstSeen)
qed


theorem inputMiddleCodes_tokens_witness:
  "fst (inputMiddleCodes (world0\<lparr>stdin := ['' 0755 ,x,0755, 0100,12345 '']\<rparr>))
     = Inr [''0755'', ''0100'']"
proof -
  let ?line = "'' 0755 ,x,0755, 0100,12345 ''"
  have 1: "TrimSpace ?line = ''0755 ,x,0755, 0100,12345''" by code_simp
  have 2: "filter validRegex (map TrimSpace (Split ''0755 ,x,0755, 0100,12345'' (CHR '','')))
           = [''0755'', ''0755'', ''0100'']" by code_simp
  have 3: "firstSeen [''0755'', ''0755'', ''0100''] = [''0755'', ''0100'']" by simp
  show ?thesis
    using inputMiddleCodes_tokens
            [where w = "world0\<lparr>stdin := [?line]\<rparr>" and line = ?line and rest = "[]"
               and toks = "[''0755'', ''0755'', ''0100'']"] 1 2 3
    by simp
qed





section \<open>The configuration file\<close>

lemma defaultConfig_valid: "list_all validRegex (MiddleCodes defaultConfig)"
  by (simp add: defaultConfig_def validRegex_def isDigit_def)

lemma loadConfig_valid:
  assumes "loadConfig E w = (Inr config, w')"
  shows "list_all validRegex (MiddleCodes config)"
proof (cases "Stat E w")
  case StatOK
  with assms show ?thesis
    by (auto simp: loadConfig_def validateCodes_eq list_all_iff split: sum.splits)
next
  case StatNotExist
  with assms have "config = defaultConfig"
    by (auto simp: loadConfig_def Let_def split: sum.splits prod.splits option.splits)
  then show ?thesis by (simp add: defaultConfig_valid)
next
  case (StatError c)
  with assms show ?thesis by (simp add: loadConfig_def)
qed

lemma inputMiddleCodes_valid:
  assumes "inputMiddleCodes w = (Inr codes, w')"
  shows "codes \<noteq> [] \<and> list_all validRegex codes"
proof -
  let ?toks = "filter validRegex (map TrimSpace
                 (Split (TrimSpace (fst (Scan_Text (Print PromptCodes w)))) (CHR '','')))"
  from assms have "codes = firstSeen ?toks" "?toks \<noteq> []"
    by (auto simp: inputMiddleCodes_eq Let_def split: if_splits)
  moreover have "set (firstSeen ?toks) = set ?toks" by (rule set_firstSeen)
  ultimately show ?thesis
    by (auto simp: list_all_iff firstSeen_Nil_iff)
qed


lemma loadConfig_absent:
  assumes "config_json w = None" "stat_fault E = None" "writefile_fault E = None"
    "json_MarshalIndent E defaultConfig = Inr d"
  shows "loadConfig E w =
    (Inr defaultConfig,
     Print MsgConfigNote (Print (MsgConfigCreated (MiddleCodes defaultConfig))
       ((Print MsgConfigNotFound w)\<lparr>config_json := Some d\<rparr>)))"
  using assms by (simp add: loadConfig_def Stat_def WriteFile_def)

lemma marshal_default:
  "fragment_MarshalIndent defaultConfig =
     Inr (''{'' @ [newline] @ ''  '' @ quoted ''middleCodes'' @ '': ['' @ [newline] @
          ''    '' @ quoted ''0537'' @ '','' @ [newline] @
          ''    '' @ quoted ''0100'' @ '','' @ [newline] @
          ''    '' @ quoted ''0210'' @ '','' @ [newline] @
          ''    '' @ quoted ''0755'' @ [newline] @ ''  ]'' @ [newline] @ ''}'')"
  by code_simp

lemma decode_default:
  "fragment_Decode
     (''{'' @ [newline] @ ''  '' @ quoted ''middleCodes'' @ '': ['' @ [newline] @
          ''    '' @ quoted ''0537'' @ '','' @ [newline] @
          ''    '' @ quoted ''0100'' @ '','' @ [newline] @
          ''    '' @ quoted ''0210'' @ '','' @ [newline] @
          ''    '' @ quoted ''0755'' @ [newline] @ ''  ]'' @ [newline] @ ''}'')
   = Inr defaultConfig"
  by code_simp

lemma valid_0537: "list_all validRegex [''0537'']"
  by (simp add: validRegex_def isDigit_def)

lemma selectLoop_valid:
  assumes "selectLoop E w = Some y"
  shows "\<exists>codes. fst y = Inr codes \<and> codes \<noteq> [] \<and> list_all validRegex codes"
proof (rule selectLoop.raw_induct
        [where P = "\<lambda>E w y. \<exists>codes. fst y = Inr codes \<and> codes \<noteq> [] \<and> list_all validRegex codes",
         OF _ assms], goal_cases)
  case (1 loop E w y)
  obtain ln w1 where sc: "Scan_Text (Print PromptOption w) = (ln, w1)"
    by (cases "Scan_Text (Print PromptOption w)")
  show ?case
  proof (cases "TrimSpace ln = ''1''")
    case True
    obtain r w2 where lc: "loadConfig E w1 = (r, w2)" by (cases "loadConfig E w1")
    show ?thesis
    proof (cases r)
      case (Inl err)
      with 1 sc True lc show ?thesis by simp
    next
      case (Inr config)
      with lc have "list_all validRegex (MiddleCodes config)" by (simp add: loadConfig_valid)
      with 1(2) sc True lc Inr valid_0537 show ?thesis
        by (auto split: if_splits)
    qed
  next
    case not1: False
    show ?thesis
    proof (cases "TrimSpace ln = ''2''")
      case True
      obtain r w2 where ic: "inputMiddleCodes w1 = (r, w2)" by (cases "inputMiddleCodes w1")
      show ?thesis
      proof (cases r)
        case (Inl err)
        with 1 sc True ic show ?thesis by simp
      next
        case (Inr codes)
        with ic have "codes \<noteq> [] \<and> list_all validRegex codes"
          by (simp add: inputMiddleCodes_valid)
        with 1(2) sc True ic Inr show ?thesis by auto
      qed
    next
      case False
      with 1 sc not1 show ?thesis by simp
    qed
  qed
qed

text \<open>
  C10.  Whenever \<open>selectMiddleCodes\<close> returns, it returns no error and a list of middle
  codes that is not empty and whose elements all match \<open>^\d{4}$\<close>: this is every list the
  driver hands to the generator.
\<close>

theorem selectMiddleCodes_valid:
  "selectMiddleCodes E w = Some (r, w') \<Longrightarrow>
     \<exists>codes. r = Inr codes \<and> codes \<noteq> [] \<and> list_all validRegex codes"
  using selectLoop_valid [of E _ "(r, w')"] by (simp add: selectMiddleCodes_def)


text \<open>
  C5.  After an existing \<open>config.json\<close> has been parsed, the entries that do not match
  \<open>^\d{4}$\<close> are dropped, a warning being printed for each, in order, and the matching
  entries are kept in order; when none is left, the driver takes the single code
  \<open>"0537"\<close>.
\<close>

theorem config_entries_filtered:
  "config_json w = Some d \<and> stat_fault E = None \<and> open_fault E = None \<and>
   json_Decode E d = Inr config
   \<longrightarrow> loadConfig E w =
         (Inr (config\<lparr>MiddleCodes := filter validRegex (MiddleCodes config)\<rparr>),
          w\<lparr>console := console w @
               map MsgInvalidCode (filter (\<lambda>code. \<not> validRegex code) (MiddleCodes config))\<rparr>)
       \<and> (stdin w = choice # rest \<and> TrimSpace choice = ''1''
            \<longrightarrow> map_option fst (selectLoop E w) =
                Some (Inr (if filter validRegex (MiddleCodes config) = [] then [''0537'']
                           else filter validRegex (MiddleCodes config))))"
proof (intro impI conjI)
  assume a: "config_json w = Some d \<and> stat_fault E = None \<and> open_fault E = None \<and>
             json_Decode E d = Inr config"
  then show "loadConfig E w =
         (Inr (config\<lparr>MiddleCodes := filter validRegex (MiddleCodes config)\<rparr>),
          w\<lparr>console := console w @
               map MsgInvalidCode (filter (\<lambda>code. \<not> validRegex code) (MiddleCodes config))\<rparr>)"
    by (simp add: loadConfig_present)
  assume b: "stdin w = choice # rest \<and> TrimSpace choice = ''1''"
  let ?w1 = "w\<lparr>stdin := rest, console := console w @ [PromptOption]\<rparr>"
  from a have "fst (loadConfig E ?w1) =
      Inr (config\<lparr>MiddleCodes := filter validRegex (MiddleCodes config)\<rparr>)"
    by (simp add: loadConfig_present)
  then obtain w2 where "loadConfig E ?w1 =
      (Inr (config\<lparr>MiddleCodes := filter validRegex (MiddleCodes config)\<rparr>), w2)"
    by (cases "loadConfig E ?w1") simp
  with b show "map_option fst (selectLoop E w) =
                Some (Inr (if filter validRegex (MiddleCodes config) = [] then [''0537'']
                           else filter validRegex (MiddleCodes config)))"
    by (simp add: selectLoop_1 [of w choice rest])
qed

text \<open>
  C4.  When \<open>config.json\<close> is absent, \<open>loadConfig\<close> writes the indented JSON of the default
  configuration, whose middle codes are \<open>["0537","0100","0210","0755"]\<close>, and returns that
  configuration; loading again reads the same four codes from the file, which is left as
  it was written.
\<close>

theorem missing_config_created:
  "config_json w = None \<and> stat_fault E = None \<and> writefile_fault E = None \<and>
   open_fault E = None \<and> json_MarshalIndent E defaultConfig = Inr d \<and>
   json_Decode E d = Inr defaultConfig
   \<longrightarrow> fst (loadConfig E w) = Inr defaultConfig
       \<and> MiddleCodes defaultConfig = [''0537'', ''0100'', ''0210'', ''0755'']
       \<and> config_json (snd (loadConfig E w)) = Some d
       \<and> fst (loadConfig E (snd (loadConfig E w))) = Inr defaultConfig
       \<and> config_json (snd (loadConfig E (snd (loadConfig E w)))) = Some d"
proof
  assume a: "config_json w = None \<and> stat_fault E = None \<and> writefile_fault E = None \<and>
   open_fault E = None \<and> json_MarshalIndent E defaultConfig = Inr d \<and>
   json_Decode E d = Inr defaultConfig"
  let ?w1 = "Print MsgConfigNote (Print (MsgConfigCreated (MiddleCodes defaultConfig))
               ((Print MsgConfigNotFound w)\<lparr>config_json := Some d\<rparr>))"
  from a have first: "loadConfig E w = (Inr defaultConfig, ?w1)"
    by (simp add: loadConfig_def Stat_def WriteFile_def)
  have cj: "config_json ?w1 = Some d" by (simp add: Print_def)
  have keep: "filter validRegex (MiddleCodes defaultConfig) = MiddleCodes defaultConfig"
    by (simp add: defaultConfig_def validRegex_def isDigit_def)
  have drop: "filter (\<lambda>c. \<not> validRegex c) (MiddleCodes defaultConfig) = []"
    by (simp add: defaultConfig_def validRegex_def isDigit_def)
  from a keep drop have second: "loadConfig E ?w1 = (Inr defaultConfig, ?w1)"
    by (simp add: loadConfig_present [OF cj])
  show "fst (loadConfig E w) = Inr defaultConfig
       \<and> MiddleCodes defaultConfig = [''0537'', ''0100'', ''0210'', ''0755'']
       \<and> config_json (snd (loadConfig E w)) = Some d
       \<and> fst (loadConfig E (snd (loadConfig E w))) = Inr defaultConfig
       \<and> config_json (snd (loadConfig E (snd (loadConfig E w)))) = Some d"
    using first second cj by (simp add: defaultConfig_def)
qed


theorem missing_config_created_witness:
  "fst (loadConfig env0 world0) = Inr defaultConfig
   \<and> config_json (snd (loadConfig env0 world0)) =
       Some (''{'' @ [newline] @ ''  '' @ quoted ''middleCodes'' @ '': ['' @ [newline] @
             ''    '' @ quoted ''0537'' @ '','' @ [newline] @
             ''    '' @ quoted ''0100'' @ '','' @ [newline] @
             ''    '' @ quoted ''0210'' @ '','' @ [newline] @
             ''    '' @ quoted ''0755'' @ [newline] @ ''  ]'' @ [newline] @ ''}'')
   \<and> fst (loadConfig env0 (snd (loadConfig env0 world0))) = Inr defaultConfig"
  using missing_config_created
          [where E = env0 and w = world0 and
             d = "''{'' @ [newline] @ ''  '' @ quoted ''middleCodes'' @ '': ['' @ [newline] @
                  ''    '' @ quoted ''0537'' @ '','' @ [newline] @
                  ''    '' @ quoted ''0100'' @ '','' @ [newline] @
                  ''    '' @ quoted ''0210'' @ '','' @ [newline] @
                  ''    '' @ quoted ''0755'' @ [newline] @ ''  ]'' @ [newline] @ ''}''"]
        marshal_default decode_default
  by (simp add: env0_def world0_def)

lemma decode_mixed:
  "fragment_Decode (''{'' @ quoted ''middleCodes'' @ '':['' @ quoted ''0537'' @ '','' @
                    quoted ''12'' @ '','' @ quoted ''0100'' @ '']}'')
     = Inr \<lparr>MiddleCodes = [''0537'', ''12'', ''0100'']\<rparr>"
  by code_simp

lemma decode_none_valid:
  "fragment_Decode (''{'' @ quoted ''middleCodes'' @ '':['' @ quoted ''12'' @ '']}'')
     = Inr \<lparr>MiddleCodes = [''12'']\<rparr>"
  by code_simp


theorem config_entries_filtered_witness:
  "loadConfig env0
     (world0\<lparr>config_json := Some (''{'' @ quoted ''middleCodes'' @ '':['' @ quoted ''0537'' @
                                   '','' @ quoted ''12'' @ '','' @ quoted ''0100'' @ '']}'')\<rparr>)
   = (Inr \<lparr>MiddleCodes = [''0537'', ''0100'']\<rparr>,
      world0\<lparr>config_json := Some (''{'' @ quoted ''middleCodes'' @ '':['' @ quoted ''0537'' @
                                   '','' @ quoted ''12'' @ '','' @ quoted ''0100'' @ '']}''),
             console := [MsgInvalidCode ''12'']\<rparr>)
   \<and> map_option fst
        (selectLoop env0
          (world0\<lparr>config_json := Some (''{'' @ quoted ''middleCodes'' @ '':['' @ quoted ''12'' @
                                        '']}''),
                  stdin := [''1'']\<rparr>))
     = Some (Inr [''0537''])"
proof -
  have v: "filter validRegex [''0537'', ''12'', ''0100''] = [''0537'', ''0100'']"
    "filter (\<lambda>code. \<not> validRegex code) [''0537'', ''12'', ''0100''] = [''12'']"
    "filter validRegex [''12''] = []"
    by (simp_all add: validRegex_def isDigit_def)
  have a: "loadConfig env0
     (world0\<lparr>config_json := Some (''{'' @ quoted ''middleCodes'' @ '':['' @ quoted ''0537'' @
                                   '','' @ quoted ''12'' @ '','' @ quoted ''0100'' @ '']}'')\<rparr>)
   = (Inr \<lparr>MiddleCodes = [''0537'', ''0100'']\<rparr>,
      world0\<lparr>config_json := Some (''{'' @ quoted ''middleCodes'' @ '':['' @ quoted ''0537'' @
                                   '','' @ quoted ''12'' @ '','' @ quoted ''0100'' @ '']}''),
             console := [MsgInvalidCode ''12'']\<rparr>)"
    using config_entries_filtered
            [where E = env0 and config = "\<lparr>MiddleCodes = [''0537'', ''12'', ''0100'']\<rparr>"
               and d = "''{'' @ quoted ''middleCodes'' @ '':['' @ quoted ''0537'' @
                                   '','' @ quoted ''12'' @ '','' @ quoted ''0100'' @ '']}''"
               and w = "world0\<lparr>config_json := Some (''{'' @ quoted ''middleCodes'' @ '':['' @
                           quoted ''0537'' @ '','' @ quoted ''12'' @ '','' @ quoted ''0100'' @
                           '']}'')\<rparr>"]
          decode_mixed v
    by (simp add: env0_def world0_def)
  have b: "map_option fst
        (selectLoop env0
          (world0\<lparr>config_json := Some (''{'' @ quoted ''middleCodes'' @ '':['' @ quoted ''12'' @
                                        '']}''),
                  stdin := [''1'']\<rparr>))
     = Some (Inr [''0537''])"
    using config_entries_filtered
            [where E = env0 and config = "\<lparr>MiddleCodes = [''12'']\<rparr>"
               and d = "''{'' @ quoted ''middleCodes'' @ '':['' @ quoted ''12'' @ '']}''"
               and choice = "''1''" and rest = "[]"
               and w = "world0\<lparr>config_json := Some (''{'' @ quoted ''middleCodes'' @ '':['' @
                           quoted ''12'' @ '']}''), stdin := [''1'']\<rparr>"]
          decode_none_valid v TrimSpace_1
    by (simp add: env0_def world0_def)
  from a b show ?thesis by simp
qed


theorem selectMiddleCodes_valid_witness:
  "\<exists>r w'. selectMiddleCodes env0 (world0\<lparr>stdin := [''1'']\<rparr>) = Some (r, w')
        \<and> r = Inr [''0537'', ''0100'', ''0210'', ''0755'']
        \<and> (\<exists>codes. r = Inr codes \<and> codes \<noteq> [] \<and> list_all validRegex codes)"
proof -
  let ?w = "Print MsgOption2 (Print MsgOption1 (Print MsgSelectMethod (world0\<lparr>stdin := [''1'']\<rparr>)))"
  have st: "stdin ?w = [''1'']" by (simp add: Print_def)
  have lc: "fst (loadConfig env0 (?w\<lparr>stdin := [], console := console ?w @ [PromptOption]\<rparr>))
             = Inr defaultConfig"
    by (subst loadConfig_absent [where d = "''{'' @ [newline] @ ''  '' @ quoted ''middleCodes'' @ '': ['' @ [newline] @
          ''    '' @ quoted ''0537'' @ '','' @ [newline] @
          ''    '' @ quoted ''0100'' @ '','' @ [newline] @
          ''    '' @ quoted ''0210'' @ '','' @ [newline] @
          ''    '' @ quoted ''0755'' @ [newline] @ ''  ]'' @ [newline] @ ''}''"])
       (simp_all add: env0_def world0_def Print_def marshal_default)
  then obtain w2 where
    "loadConfig env0 (?w\<lparr>stdin := [], console := console ?w @ [PromptOption]\<rparr>)
       = (Inr defaultConfig, w2)"
    by (cases "loadConfig env0 (?w\<lparr>stdin := [], console := console ?w @ [PromptOption]\<rparr>)") simp
  then have "map_option fst (selectMiddleCodes env0 (world0\<lparr>stdin := [''1'']\<rparr>))
               = Some (Inr [''0537'', ''0100'', ''0210'', ''0755''])"
    unfolding selectMiddleCodes_def
    by (subst selectLoop_1 [OF st TrimSpace_1]) (simp add: defaultConfig_def)
  then obtain w' where eq: "selectMiddleCodes env0 (world0\<lparr>stdin := [''1'']\<rparr>)
       = Some (Inr [''0537'', ''0100'', ''0210'', ''0755''], w')"
    by (cases "selectMiddleCodes env0 (world0\<lparr>stdin := [''1'']\<rparr>)") auto
  from selectMiddleCodes_valid [OF eq] eq show ?thesis by blast
qed


end
